theory Spec2Isabelle
  imports Complex_Main "HOL-Library.AList"
begin

section \<open>Exchange-rate cache of ValutaTrade Hub\<close>

text \<open>
  The development embeds \<^verbatim>\<open>valutatrade_hub/core/utils.py\<close> and
  \<^verbatim>\<open>valutatrade_hub/infra/database.py\<close>.  Python exceptions are values of the
  type \<open>exn\<close>, a computation returns \<open>exn + 'a\<close> together with the state it leaves
  behind.  Floating point numbers are read as real numbers and a \<^verbatim>\<open>datetime\<close> as
  the number of seconds on its clock; ISO-8601 strings of the cache are kept in
  parsed form.  Log output is left out.
\<close>

subsection \<open>Exceptions\<close>

text \<open>
  The members of Python's \<^verbatim>\<open>Exception\<close> class that the embedded code can meet.
  Message texts are carried along in shortened, ASCII form; no statement below
  depends on them.
\<close>

datatype exn =
    ApiRequestError string
  | RateNotFoundError string
  | FileNotFoundError
  | JSONDecodeError
  | ZeroDivisionError
  | TypeError
  | OtherException string

fun exn_str :: "exn \<Rightarrow> string" where
  "exn_str (ApiRequestError m) = m"
| "exn_str (RateNotFoundError m) = m"
| "exn_str FileNotFoundError = []"
| "exn_str JSONDecodeError = ''Expecting value''"
| "exn_str ZeroDivisionError = ''division by zero''"
| "exn_str TypeError = ''string indices must be integers''"
| "exn_str (OtherException m) = m"

subsection \<open>The JSON store: \<^verbatim>\<open>DatabaseManager\<close> and \<^verbatim>\<open>load_json\<close>\<close>

datatype json =
    JNull
  | JBool bool
  | JNum real
  | JStr string
  | JList "json list"
  | JObj "(string \<times> json) list"

text \<open>A file holds text that parses to a JSON value, or text that does not.\<close>

datatype file_content = Json json | Malformed

type_synonym filesystem = "string \<rightharpoonup> file_content"

text \<open>\<^verbatim>\<open>DatabaseManager.save\<close>: creates the directories and rewrites the whole file.\<close>

definition db_save :: "string \<Rightarrow> json \<Rightarrow> filesystem \<Rightarrow> filesystem" where
  "db_save path data fs = fs(path \<mapsto> Json data)"

text \<open>
  \<^verbatim>\<open>DatabaseManager.load\<close>: a missing file is first created with the content
  \<^verbatim>\<open>[]\<close>, then \<^verbatim>\<open>FileNotFoundError\<close> is raised.
\<close>

definition db_load :: "string \<Rightarrow> filesystem \<Rightarrow> (exn + json) \<times> filesystem" where
  "db_load path fs =
     (case fs path of
        None \<Rightarrow> (Inl FileNotFoundError, db_save path (JList []) fs)
      | Some Malformed \<Rightarrow> (Inl JSONDecodeError, fs)
      | Some (Json j) \<Rightarrow> (Inr j, fs))"

text \<open>\<^verbatim>\<open>load_json\<close>: \<^verbatim>\<open>FileNotFoundError\<close> is caught and answered with \<^verbatim>\<open>[]\<close>.\<close>

definition load_json :: "string \<Rightarrow> filesystem \<Rightarrow> (exn + json) \<times> filesystem" where
  "load_json path fs =
     (case db_load path fs of
        (Inl FileNotFoundError, fs') \<Rightarrow> (Inr (JList []), fs')
      | (r, fs') \<Rightarrow> (r, fs'))"

definition save_json :: "string \<Rightarrow> json \<Rightarrow> filesystem \<Rightarrow> filesystem" where
  "save_json path data fs = db_save path data fs"

text \<open>Python's truth value of a JSON value, and the keys of a JSON object.\<close>

fun truthy :: "json \<Rightarrow> bool" where
  "truthy JNull = False"
| "truthy (JBool b) = b"
| "truthy (JNum x) = (x \<noteq> 0)"
| "truthy (JStr s) = (s \<noteq> [])"
| "truthy (JList xs) = (xs \<noteq> [])"
| "truthy (JObj kvs) = (kvs \<noteq> [])"

fun json_keys :: "json \<Rightarrow> string list" where
  "json_keys (JObj kvs) = map fst kvs"
| "json_keys _ = []"

subsection \<open>The rate snapshot and \<^verbatim>\<open>find_rate\<close>\<close>

type_synonym datetime = real

text \<open>
  A snapshot is the dictionary read from the rates file: pair keys \<^verbatim>\<open>FROM_TO\<close>
  are bound to a record with the fields \<^verbatim>\<open>rate\<close>, \<^verbatim>\<open>updated_at\<close> and
  \<^verbatim>\<open>source\<close>; \<^verbatim>\<open>last_refresh\<close> is bound to a time stamp and \<^verbatim>\<open>source\<close>
  to a label.
\<close>

datatype entry =
    Pair_entry (rate: real) (updated_at: datetime) (source: string)
  | Timestamp datetime
  | Label string

type_synonym rates = "(string \<times> entry) list"

definition pair_key :: "string \<Rightarrow> string \<Rightarrow> string" where
  "pair_key a b = a @ ''_'' @ b"

text \<open>
  \<^verbatim>\<open>find_rate\<close>: the direct key first, then the reverse key with the rate
  inverted.  Subscripting a scalar entry with \<^verbatim>\<open>"rate"\<close> raises \<^verbatim>\<open>TypeError\<close>,
  and \<^verbatim>\<open>1 / 0\<close> raises \<^verbatim>\<open>ZeroDivisionError\<close>.
\<close>

definition find_rate :: "rates \<Rightarrow> string \<Rightarrow> string \<Rightarrow> exn + (real \<times> datetime)" where
  "find_rate rs a b =
     (case map_of rs (pair_key a b) of
        Some e \<Rightarrow>
          (case e of
             Pair_entry r u _ \<Rightarrow> Inr (r, u)
           | _ \<Rightarrow> Inl TypeError)
      | None \<Rightarrow>
          (case map_of rs (pair_key b a) of
             Some e \<Rightarrow>
               (case e of
                  Pair_entry r u _ \<Rightarrow>
                    if r = 0 then Inl ZeroDivisionError else Inr (1 / r, u)
                | _ \<Rightarrow> Inl TypeError)
           | None \<Rightarrow> Inl (RateNotFoundError (a @ ''->'' @ b))))"

subsection \<open>Computations with state and exceptions\<close>

type_synonym ('a, 's) prog = "'s \<Rightarrow> (exn + 'a) \<times> 's"

definition return :: "'a \<Rightarrow> ('a, 's) prog" where
  "return a s = (Inr a, s)"

definition bind :: "('a, 's) prog \<Rightarrow> ('a \<Rightarrow> ('b, 's) prog) \<Rightarrow> ('b, 's) prog" where
  "bind m f s = (case m s of (Inl e, s') \<Rightarrow> (Inl e, s') | (Inr a, s') \<Rightarrow> f a s')"

text \<open>A pure result that may be an exception, as a computation.\<close>

definition lift :: "exn + 'a \<Rightarrow> ('a, 's) prog" where
  "lift r s = (r, s)"

subsection \<open>The collaborators of the resolver\<close>

text \<open>
  \<^verbatim>\<open>update_rates\<close> builds one client per requested source.
\<close>

datatype client = CoinGeckoClient | ExchangeRateApiClient

text \<open>
  The modules \<^verbatim>\<open>parser_service\<close> and \<^verbatim>\<open>infra.settings\<close> are used by the
  embedded functions through four calls only, which are the fields of an
  environment over a state of the outside world \<open>'w\<close>:
  \<^item> \<open>load_rates\<close> is \<^verbatim>\<open>RatesStorage().load_rates()\<close>;
  \<^item> \<open>run_update\<close> is everything inside the \<^verbatim>\<open>try\<close> block of
    \<^verbatim>\<open>update_rates\<close> once the client list is chosen: \<^verbatim>\<open>ParserConfig()\<close>, the
    client constructors, \<^verbatim>\<open>RatesStorage()\<close> and
    \<^verbatim>\<open>RatesUpdater(clients, storage).run_update()\<close>, yielding the count or an
    exception;
  \<^item> \<open>rates_ttl\<close> is \<^verbatim>\<open>SettingsLoader().get("RATES_TTL_SECONDS", 3600)\<close>;
  \<^item> \<open>now_utc\<close> and \<open>now_local\<close> are \<^verbatim>\<open>datetime.now(timezone.utc)\<close> and
    \<^verbatim>\<open>datetime.now()\<close>.
\<close>

record 'w env =
  load_rates :: "'w \<Rightarrow> (exn + rates) \<times> 'w"
  run_update :: "client list \<Rightarrow> 'w \<Rightarrow> (exn + nat) \<times> 'w"
  rates_ttl :: "'w \<Rightarrow> real"
  now_utc :: "'w \<Rightarrow> datetime"
  now_local :: "'w \<Rightarrow> datetime"

text \<open>
  The state threaded through the resolver is the outside world together with a
  log of the calls made to the storage and to \<^verbatim>\<open>update_rates\<close>, in order.
\<close>

datatype event = LoadRates | UpdateRates

record 'w state =
  world :: 'w
  trace :: "event list"

definition refreshes :: "'w state \<Rightarrow> nat" where
  "refreshes s = length (filter (\<lambda>e. e = UpdateRates) (trace s))"

definition storage_load_rates :: "'w env \<Rightarrow> (rates, 'w state) prog" where
  "storage_load_rates E s =
     (case load_rates E (world s) of
        (r, w') \<Rightarrow> (r, \<lparr>world = w', trace = trace s @ [LoadRates]\<rparr>))"

subsection \<open>\<^verbatim>\<open>update_rates\<close>\<close>

definition clients_for :: "string option \<Rightarrow> client list" where
  "clients_for src =
     (if src = Some ''coingecko'' then [CoinGeckoClient]
      else if src = Some ''exchangerate'' then [ExchangeRateApiClient]
      else [CoinGeckoClient, ExchangeRateApiClient])"

definition update_rates :: "'w env \<Rightarrow> string option \<Rightarrow> (unit, 'w state) prog" where
  "update_rates E src s =
     (case run_update E (clients_for src) (world s) of
        (r, w') \<Rightarrow>
          (let s' = \<lparr>world = w', trace = trace s @ [UpdateRates]\<rparr> in
           case r of
             Inl (ApiRequestError m) \<Rightarrow> (Inl (ApiRequestError m), s')
           | Inl e \<Rightarrow> (Inl (ApiRequestError (''update failed: '' @ exn_str e)), s')
           | Inr updated_cnt \<Rightarrow>
               if updated_cnt = 0
               then (Inl (ApiRequestError ''no rate from any client''), s')
               else (Inr (), s')))"

subsection \<open>\<^verbatim>\<open>get_exchange_rate\<close>\<close>

text \<open>\<^verbatim>\<open>str.upper\<close> on the ASCII letters; other bytes stay as they are.\<close>

definition upper_char :: "char \<Rightarrow> char" where
  "upper_char c =
     (let n = (of_char c :: nat)
      in if 97 \<le> n \<and> n \<le> 122 then char_of (n - 32) else c)"

definition upper :: "string \<Rightarrow> string" where
  "upper s = map upper_char s"

text \<open>
  The three places that call \<^verbatim>\<open>update_rates()\<close> are, in the order of the
  source: the snapshot is empty or has no \<^verbatim>\<open>last_refresh\<close>; \<^verbatim>\<open>find_rate\<close>
  raised \<^verbatim>\<open>RateNotFoundError\<close>; the record found is older than the TTL.
  Only \<^verbatim>\<open>RateNotFoundError\<close> of the first lookup is handled, every other
  exception leaves the function.
\<close>

definition get_exchange_rate ::
  "'w env \<Rightarrow> string \<Rightarrow> string \<Rightarrow> (real \<times> datetime, 'w state) prog" where
  "get_exchange_rate E from_currency to_currency =
     (let f = upper from_currency; t = upper to_currency in
      if f = t then (\<lambda>s. (Inr (1, now_local E (world s)), s))
      else
        bind (storage_load_rates E) (\<lambda>rs.
        bind (if rs = [] \<or> map_of rs ''last_refresh'' = None
              then bind (update_rates E None) (\<lambda>_. storage_load_rates E)
              else return rs) (\<lambda>rs.
        bind (case find_rate rs f t of
                Inl (RateNotFoundError _) \<Rightarrow>
                  bind (update_rates E None) (\<lambda>_.
                  bind (storage_load_rates E) (\<lambda>rs.
                  lift (find_rate rs f t)))
              | r \<Rightarrow> lift r) (\<lambda>(rate, updated_at).
        (\<lambda>s.
          if now_utc E (world s) - updated_at > rates_ttl E (world s)
          then bind (update_rates E None) (\<lambda>_.
               bind (storage_load_rates E) (\<lambda>rs.
               lift (find_rate rs f t))) s
          else (Inr (rate, updated_at), s))))))"

subsection \<open>Rate store and updater\<close>

text \<open>
  Modelled from the spec: the classes \<^verbatim>\<open>RatesStorage\<close>, \<^verbatim>\<open>RatesUpdater\<close>
  and the two API clients of \<^verbatim>\<open>parser_service\<close>, and \<^verbatim>\<open>SettingsLoader\<close>,
  are not part of the sources.  The definitions of this subsection follow the
  sections "Rate Source Client", "Rate Cache Store" and "Rate Updater" of the
  specification.  A client's \<^verbatim>\<open>fetch()\<close> either fails with \<open>SourceUnavailable\<close>
  or returns observations \<open>(from, to, rate, observed_at)\<close>.  The outside world
  holds the cache file (\<open>None\<close> while it does not exist), what every provider
  answers in each of the coming refresh cycles, the clock and the configured
  TTL.  The informational field \<^verbatim>\<open>source\<close> of the snapshot is left out.
\<close>

type_synonym observation = "string \<times> string \<times> real \<times> datetime"

datatype fetch_result = SourceUnavailable | Fetched "observation list"

record provider_world =
  cache_file :: "rates option"
  feeds :: "(client \<Rightarrow> fetch_result) list"
  clock :: datetime
  ttl_seconds :: real

fun client_label :: "client \<Rightarrow> string" where
  "client_label CoinGeckoClient = ''CoinGecko''"
| "client_label ExchangeRateApiClient = ''ExchangeRate-API''"

definition record_of :: "client \<Rightarrow> observation \<Rightarrow> string \<times> entry" where
  "record_of c = (\<lambda>(f, t, r, seen). (pair_key f t, Pair_entry r seen (client_label c)))"

text \<open>
  Modelled from the spec: the store's \<open>load\<close> returns the empty snapshot and
  creates the file when there is none; \<open>save\<close> rewrites the whole file.
\<close>

definition store_load :: "provider_world \<Rightarrow> rates \<times> provider_world" where
  "store_load w =
     (case cache_file w of
        None \<Rightarrow> ([], w\<lparr>cache_file := Some []\<rparr>)
      | Some snap \<Rightarrow> (snap, w))"

definition store_save :: "rates \<Rightarrow> provider_world \<Rightarrow> provider_world" where
  "store_save snap w = w\<lparr>cache_file := Some snap\<rparr>"

text \<open>
  Modelled from the spec: every source is asked in order, a source that is
  unavailable is skipped, and the records of the others are collected in the
  order in which they are merged.
\<close>

fun fetch_all :: "(client \<Rightarrow> fetch_result) \<Rightarrow> client list \<Rightarrow> (string \<times> entry) list" where
  "fetch_all feed [] = []"
| "fetch_all feed (c # cs) =
     (case feed c of
        SourceUnavailable \<Rightarrow> fetch_all feed cs
      | Fetched obs \<Rightarrow> map (record_of c) obs @ fetch_all feed cs)"

text \<open>
  Modelled from the spec: a new record replaces the record of the same key,
  all other entries of the snapshot are kept.
\<close>

definition merge_records :: "rates \<Rightarrow> (string \<times> entry) list \<Rightarrow> rates" where
  "merge_records snap new = fold (\<lambda>(k, e). AList.update k e) new snap"

fun is_pair :: "string \<times> entry \<Rightarrow> bool" where
  "is_pair (_, Pair_entry _ _ _) = True"
| "is_pair _ = False"

definition next_feed :: "provider_world \<Rightarrow> client \<Rightarrow> fetch_result" where
  "next_feed w = (case feeds w of [] \<Rightarrow> (\<lambda>_. SourceUnavailable) | feed # _ \<Rightarrow> feed)"

text \<open>
  Modelled from the spec: one refresh cycle of the updater.  With no
  observation at all the cache is not written and the count is \<open>0\<close>, which
  \<^verbatim>\<open>update_rates\<close> turns into the error; otherwise the merged snapshot is
  stamped with \<^verbatim>\<open>last_refresh\<close>, saved as a whole, and the number of pair
  entries now present is returned.
\<close>

definition run_cycle :: "client list \<Rightarrow> provider_world \<Rightarrow> (exn + nat) \<times> provider_world" where
  "run_cycle clients w =
     (let new = fetch_all (next_feed w) clients;
          w1 = w\<lparr>feeds := tl (feeds w)\<rparr>
      in if new = [] then (Inr 0, w1)
         else
           (case store_load w1 of
              (snap, w2) \<Rightarrow>
                (let merged = merge_records snap new;
                     stamped = AList.update ''last_refresh'' (Timestamp (clock w2)) merged
                 in (Inr (length (filter is_pair merged)), store_save stamped w2))))"

definition provider_env :: "provider_world env" where
  "provider_env =
     \<lparr>load_rates = (\<lambda>w. case store_load w of (snap, w') \<Rightarrow> (Inr snap, w')),
      run_update = run_cycle,
      rates_ttl = ttl_seconds,
      now_utc = clock,
      now_local = clock\<rparr>"

text \<open>An environment whose updater cannot even be set up.\<close>

definition broken_env :: "unit env" where
  "broken_env =
     \<lparr>load_rates = (\<lambda>w. (Inr [], w)),
      run_update = (\<lambda>_ w. (Inl (OtherException ''config.json is missing''), w)),
      rates_ttl = (\<lambda>_. 3600),
      now_utc = (\<lambda>_. 0),
      now_local = (\<lambda>_. 0)\<rparr>"

subsection \<open>Sample worlds\<close>

text \<open>
  The fiat provider answers with one pair while the crypto provider is down;
  in \<open>crypto_stale_feed\<close> the crypto provider reports a rate observed two
  hours before the sample clock.
\<close>

definition fiat_feed :: "client \<Rightarrow> fetch_result" where
  "fiat_feed c =
     (case c of
        CoinGeckoClient \<Rightarrow> SourceUnavailable
      | ExchangeRateApiClient \<Rightarrow> Fetched [(''EUR'', ''USD'', 1.25, 999990)])"

definition crypto_stale_feed :: "client \<Rightarrow> fetch_result" where
  "crypto_stale_feed c =
     (case c of
        CoinGeckoClient \<Rightarrow> Fetched [(''BTC'', ''USD'', 50000, 992800)]
      | ExchangeRateApiClient \<Rightarrow> SourceUnavailable)"

definition down_feed :: "client \<Rightarrow> fetch_result" where
  "down_feed c = SourceUnavailable"

definition fresh_world :: "(client \<Rightarrow> fetch_result) list \<Rightarrow> provider_world" where
  "fresh_world fs = \<lparr>cache_file = None, feeds = fs, clock = 1000000, ttl_seconds = 3600\<rparr>"

definition btc_snapshot :: "datetime \<Rightarrow> rates" where
  "btc_snapshot seen =
     [(''BTC_USD'', Pair_entry 50000 seen ''CoinGecko''),
      (''last_refresh'', Timestamp seen)]"

definition cached_world :: "rates \<Rightarrow> (client \<Rightarrow> fetch_result) list \<Rightarrow> provider_world" where
  "cached_world snap fs =
     \<lparr>cache_file = Some snap, feeds = fs, clock = 1000000, ttl_seconds = 3600\<rparr>"

text \<open>A rates file that holds a record but no \<^verbatim>\<open>last_refresh\<close>.\<close>

definition unstamped_snapshot :: "datetime \<Rightarrow> rates" where
  "unstamped_snapshot seen = [(''BTC_USD'', Pair_entry 50000 seen ''CoinGecko'')]"

definition both_ways_snapshot :: rates where
  "both_ways_snapshot =
     [(''BTC_USD'', Pair_entry 50000 999990 ''CoinGecko''),
      (''USD_BTC'', Pair_entry 4 999000 ''ExchangeRate-API''),
      (''last_refresh'', Timestamp 999990)]"

definition start :: "'w \<Rightarrow> 'w state" where
  "start w = \<lparr>world = w, trace = []\<rparr>"

section \<open>Lookup in a snapshot\<close>


lemma find_rate_zero_rate:
  "map_of rs (pair_key a b) = Some (Pair_entry 0 u src) \<Longrightarrow> map_of rs (pair_key b a) = None \<Longrightarrow>
   find_rate rs b a = Inl ZeroDivisionError"
  by (simp add: find_rate_def)

text \<open>
  C3.  When the snapshot stores the pair \<open>(a, b)\<close> with rate \<open>r\<close> and time
  stamp \<open>u\<close> and does not store \<open>(b, a)\<close>, looking up \<open>(b, a)\<close> yields the
  inverse rate \<open>1 / r\<close> together with the stored time stamp \<open>u\<close>.  Stored
  rates are positive in the data model; a stored rate of zero makes the
  division fail (\<open>find_rate_zero_rate\<close>).
\<close>

theorem find_rate_inverts_reverse_record:
  assumes "map_of rs (pair_key a b) = Some (Pair_entry r u src)"
    and "map_of rs (pair_key b a) = None"
    and "r \<noteq> 0"
  shows "find_rate rs b a = Inr (1 / r, u)"
  using assms by (simp add: find_rate_def)

theorem find_rate_inverts_reverse_record_witness:
  "map_of (btc_snapshot 999990) (pair_key ''BTC'' ''USD'')
     = Some (Pair_entry 50000 999990 ''CoinGecko'')
   \<and> map_of (btc_snapshot 999990) (pair_key ''USD'' ''BTC'') = None
   \<and> find_rate (btc_snapshot 999990) ''USD'' ''BTC'' = Inr (1 / 50000, 999990)"
proof -
  have stored: "map_of (btc_snapshot 999990) (pair_key ''BTC'' ''USD'')
      = Some (Pair_entry 50000 999990 ''CoinGecko'')"
    by (simp add: btc_snapshot_def pair_key_def)
  have missing: "map_of (btc_snapshot 999990) (pair_key ''USD'' ''BTC'') = None"
    by (simp add: btc_snapshot_def pair_key_def)
  from find_rate_inverts_reverse_record [OF stored missing] stored missing
  show ?thesis by simp
qed

text \<open>
  C8.  When the snapshot stores both the direct key \<open>(a, b)\<close> and the reverse
  key \<open>(b, a)\<close>, \<open>find_rate a b\<close> returns the rate and time stamp stored
  under the direct key: the reverse entry is not consulted.
\<close>

theorem find_rate_prefers_direct_record:
  assumes "map_of rs (pair_key a b) = Some (Pair_entry r u src)"
    and "map_of rs (pair_key b a) = Some e"
  shows "find_rate rs a b = Inr (r, u)"
  using assms by (simp add: find_rate_def)

theorem find_rate_prefers_direct_record_witness:
  "map_of both_ways_snapshot (pair_key ''BTC'' ''USD'')
     = Some (Pair_entry 50000 999990 ''CoinGecko'')
   \<and> map_of both_ways_snapshot (pair_key ''USD'' ''BTC'')
     = Some (Pair_entry 4 999000 ''ExchangeRate-API'')
   \<and> find_rate both_ways_snapshot ''BTC'' ''USD'' = Inr (50000, 999990)"
proof -
  have direct: "map_of both_ways_snapshot (pair_key ''BTC'' ''USD'')
      = Some (Pair_entry 50000 999990 ''CoinGecko'')"
    by (simp add: both_ways_snapshot_def pair_key_def)
  have reverse: "map_of both_ways_snapshot (pair_key ''USD'' ''BTC'')
      = Some (Pair_entry 4 999000 ''ExchangeRate-API'')"
    by (simp add: both_ways_snapshot_def pair_key_def)
  from find_rate_prefers_direct_record [OF direct reverse] direct reverse
  show ?thesis by simp
qed

section \<open>Loading a JSON file\<close>

lemma db_load_missing_file:
  "fs path = None \<Longrightarrow>
   db_load path fs = (Inl FileNotFoundError, fs(path \<mapsto> Json (JList [])))"
  by (simp add: db_load_def db_save_def)

text \<open>
  C5.  When the file does not exist, \<^verbatim>\<open>load_json\<close> returns the empty value
  \<^verbatim>\<open>[]\<close>, which is false as a condition and has no key (so neither a record
  nor \<^verbatim>\<open>last_refresh\<close>), and the file now exists with that content.  On no
  file system does \<^verbatim>\<open>load_json\<close> raise \<^verbatim>\<open>FileNotFoundError\<close>: the one raised
  by \<^verbatim>\<open>DatabaseManager.load\<close> (\<open>db_load_missing_file\<close>) is caught.
\<close>

theorem load_json_missing_file:
  assumes "fs path = None"
  shows "load_json path fs = (Inr (JList []), fs(path \<mapsto> Json (JList [])))
    \<and> \<not> truthy (JList []) \<and> json_keys (JList []) = []
    \<and> fst (load_json path fs') \<noteq> Inl FileNotFoundError"
  using assms
  by (auto simp add: load_json_def db_load_def db_save_def
      split: option.splits file_content.splits)

theorem load_json_missing_file_witness:
  "(Map.empty :: filesystem) ''data/rates.json'' = None
   \<and> fst (load_json ''data/rates.json'' Map.empty) = Inr (JList [])
   \<and> snd (load_json ''data/rates.json'' Map.empty) ''data/rates.json'' = Some (Json (JList []))"
proof -
  have missing: "(Map.empty :: filesystem) ''data/rates.json'' = None"
    by simp
  from load_json_missing_file [OF missing] show ?thesis
    by simp
qed

section \<open>Refreshing the rates\<close>

text \<open>
  C10.  Whatever exception \<^verbatim>\<open>update_rates\<close> ends with is an
  \<^verbatim>\<open>ApiRequestError\<close>: every exception of the \<^verbatim>\<open>try\<close> block (client
  construction and the updater run) leaves as an \<^verbatim>\<open>ApiRequestError\<close>,
  passed through or wrapped, and a count of zero raises one.
\<close>

theorem update_rates_raises_only_ApiRequestError:
  "(fst (update_rates E src s) = Inl e \<longrightarrow> (\<exists>m. e = ApiRequestError m))
   \<and> (fst (run_update E (clients_for src) (world s)) = Inl x \<longrightarrow>
        (\<exists>m. fst (update_rates E src s) = Inl (ApiRequestError m)))
   \<and> (fst (run_update E (clients_for src) (world s)) = Inr 0 \<longrightarrow>
        (\<exists>m. fst (update_rates E src s) = Inl (ApiRequestError m)))"
  by (auto simp add: update_rates_def Let_def
      split: prod.splits sum.splits exn.splits if_splits)

theorem update_rates_raises_only_ApiRequestError_witness:
  "fst (run_update broken_env (clients_for None) (world (start ())))
     = Inl (OtherException ''config.json is missing'')
   \<and> fst (update_rates broken_env None (start ()))
     = Inl (ApiRequestError ''update failed: config.json is missing'')
   \<and> fst (run_update provider_env (clients_for None) (world (start (fresh_world []))))
     = Inr 0
   \<and> (\<exists>m. fst (update_rates provider_env None (start (fresh_world [])))
     = Inl (ApiRequestError m))"
proof -
  have broken: "fst (run_update broken_env (clients_for None) (world (start ())))
      = Inl (OtherException ''config.json is missing'')"
    by (simp add: broken_env_def)
  have raised: "fst (update_rates broken_env None (start ()))
      = Inl (ApiRequestError ''update failed: config.json is missing'')"
    by (simp add: update_rates_def broken_env_def start_def)
  have zero: "fst (run_update provider_env (clients_for None) (world (start (fresh_world []))))
      = Inr 0"
    by (simp add: provider_env_def run_cycle_def next_feed_def start_def fresh_world_def
        clients_for_def)
  from update_rates_raises_only_ApiRequestError
      [of broken_env None "start ()" "ApiRequestError ''update failed: config.json is missing''"]
    update_rates_raises_only_ApiRequestError [of provider_env None "start (fresh_world [])"]
    broken raised zero
  show ?thesis by simp
qed

subsection \<open>The updater of the specification under \<^verbatim>\<open>update_rates\<close>\<close>

lemma fetch_all_is_pair: "x \<in> set (fetch_all feed cs) \<Longrightarrow> is_pair x"
  by (induction cs) (auto simp add: record_of_def split: fetch_result.splits)

lemma fetch_all_unavailable:
  "\<forall>c\<in>set cs. feed c = SourceUnavailable \<Longrightarrow> fetch_all feed cs = []"
  by (induction cs) simp_all

lemma fetch_all_fetched:
  "c \<in> set cs \<Longrightarrow> feed c = Fetched (ob # obs) \<Longrightarrow> fetch_all feed cs \<noteq> []"
  by (induction cs) (auto split: fetch_result.splits)

lemma merge_records_snoc:
  "merge_records snap (new @ [(k, e)]) = AList.update k e (merge_records snap new)"
  by (simp add: merge_records_def)

lemma update_holds: "(k, e) \<in> set (AList.update k e al)"
  by (rule map_of_SomeD) (simp add: update_conv')

lemma merge_records_has_pair:
  assumes "new \<noteq> []" and "\<forall>x\<in>set new. is_pair x"
  shows "filter is_pair (merge_records snap new) \<noteq> []"
proof -
  from assms(1) obtain xs k e where new: "new = xs @ [(k, e)]"
    by (cases new rule: rev_cases) auto
  with assms(2) have "is_pair (k, e)" by simp
  moreover have "(k, e) \<in> set (merge_records snap new)"
    by (simp add: new merge_records_snoc update_holds)
  ultimately show ?thesis
    by (auto simp add: filter_empty_conv)
qed

lemma run_cycle_nothing:
  assumes "fetch_all (next_feed w) cs = []"
  shows "run_cycle cs w = (Inr 0, w\<lparr>feeds := tl (feeds w)\<rparr>)"
  using assms by (simp add: run_cycle_def Let_def)

lemma run_cycle_something:
  assumes "fetch_all (next_feed w) cs \<noteq> []"
  shows "\<exists>n w'. run_cycle cs w = (Inr (Suc n), w')"
proof -
  let ?new = "fetch_all (next_feed w) cs"
  obtain snap w2 where l: "store_load (w\<lparr>feeds := tl (feeds w)\<rparr>) = (snap, w2)"
    by (cases "store_load (w\<lparr>feeds := tl (feeds w)\<rparr>)")
  have "filter is_pair (merge_records snap ?new) \<noteq> []"
    using assms fetch_all_is_pair by (intro merge_records_has_pair) auto
  then obtain n where "length (filter is_pair (merge_records snap ?new)) = Suc n"
    by (cases "filter is_pair (merge_records snap ?new)") auto
  with assms l show ?thesis
    by (simp add: run_cycle_def Let_def)
qed

text \<open>
  C2.  Against the updater modelled from the specification: when every
  configured source is unavailable, and more generally when no observation
  is merged in the cycle, \<^verbatim>\<open>update_rates\<close> raises its error and the cache
  file is what it was; when at least one observation is merged, in
  particular when some configured source delivers one, no error is raised.
\<close>

theorem update_rates_no_rates_available:
  "((\<forall>c\<in>set (clients_for src). next_feed (world s) c = SourceUnavailable) \<longrightarrow>
      (\<exists>m. fst (update_rates provider_env src s) = Inl (ApiRequestError m)) \<and>
      cache_file (world (snd (update_rates provider_env src s))) = cache_file (world s))
   \<and> (fetch_all (next_feed (world s)) (clients_for src) = [] \<longrightarrow>
      (\<exists>m. fst (update_rates provider_env src s) = Inl (ApiRequestError m)) \<and>
      cache_file (world (snd (update_rates provider_env src s))) = cache_file (world s))
   \<and> (fetch_all (next_feed (world s)) (clients_for src) \<noteq> [] \<longrightarrow>
      fst (update_rates provider_env src s) = Inr ())
   \<and> ((\<exists>c\<in>set (clients_for src). \<exists>ob obs. next_feed (world s) c = Fetched (ob # obs)) \<longrightarrow>
      fst (update_rates provider_env src s) = Inr ())"
proof -
  let ?new = "fetch_all (next_feed (world s)) (clients_for src)"
  have none: "(\<exists>m. fst (update_rates provider_env src s) = Inl (ApiRequestError m)) \<and>
      cache_file (world (snd (update_rates provider_env src s))) = cache_file (world s)"
    if "?new = []"
    using run_cycle_nothing [OF that]
    by (simp add: update_rates_def provider_env_def Let_def)
  have some: "fst (update_rates provider_env src s) = Inr ()" if "?new \<noteq> []"
  proof -
    from run_cycle_something [OF that] obtain n w'
      where "run_cycle (clients_for src) (world s) = (Inr (Suc n), w')" by blast
    then show ?thesis
      by (simp add: update_rates_def provider_env_def Let_def)
  qed
  from none some fetch_all_unavailable fetch_all_fetched show ?thesis by blast
qed

theorem update_rates_no_rates_available_witness:
  "clients_for None = [CoinGeckoClient, ExchangeRateApiClient]
   \<and> next_feed (world (start (cached_world (btc_snapshot 5) [down_feed]))) CoinGeckoClient
       = SourceUnavailable
   \<and> next_feed (world (start (cached_world (btc_snapshot 5) [down_feed]))) ExchangeRateApiClient
       = SourceUnavailable
   \<and> (\<exists>m. fst (update_rates provider_env None
         (start (cached_world (btc_snapshot 5) [down_feed]))) = Inl (ApiRequestError m))
   \<and> cache_file (world (snd (update_rates provider_env None
         (start (cached_world (btc_snapshot 5) [down_feed]))))) = Some (btc_snapshot 5)
   \<and> fetch_all (next_feed (world (start (cached_world (btc_snapshot 5) [fiat_feed]))))
         (clients_for None) \<noteq> []
   \<and> next_feed (world (start (cached_world (btc_snapshot 5) [fiat_feed]))) CoinGeckoClient
       = SourceUnavailable
   \<and> next_feed (world (start (cached_world (btc_snapshot 5) [fiat_feed]))) ExchangeRateApiClient
       = Fetched [(''EUR'', ''USD'', 5 / 4, 999990)]
   \<and> fst (update_rates provider_env None (start (cached_world (btc_snapshot 5) [fiat_feed])))
       = Inr ()"
proof -
  let ?s1 = "start (cached_world (btc_snapshot 5) [down_feed])"
  let ?s2 = "start (cached_world (btc_snapshot 5) [fiat_feed])"
  have h1: "\<forall>c\<in>set (clients_for None). next_feed (world ?s1) c = SourceUnavailable"
    by (simp add: next_feed_def start_def cached_world_def down_feed_def)
  have h2: "fetch_all (next_feed (world ?s2)) (clients_for None) \<noteq> []"
    by (simp add: next_feed_def start_def cached_world_def fiat_feed_def clients_for_def)
  have c: "cache_file (world ?s1) = Some (btc_snapshot 5)"
    by (simp add: start_def cached_world_def)
  have d: "next_feed (world ?s1) c = SourceUnavailable" for c
    by (simp add: next_feed_def start_def cached_world_def down_feed_def)
  have cs: "clients_for None = [CoinGeckoClient, ExchangeRateApiClient]"
    by (simp add: clients_for_def)
  from update_rates_no_rates_available [of None ?s1] update_rates_no_rates_available [of None ?s2]
    h1 h2 c
  have "(\<exists>m. fst (update_rates provider_env None ?s1) = Inl (ApiRequestError m))
      \<and> cache_file (world (snd (update_rates provider_env None ?s1))) = Some (btc_snapshot 5)
      \<and> fst (update_rates provider_env None ?s2) = Inr ()"
    by simp
  moreover have "next_feed (world ?s2) CoinGeckoClient = SourceUnavailable"
    and "next_feed (world ?s2) ExchangeRateApiClient = Fetched [(''EUR'', ''USD'', 5 / 4, 999990)]"
    by (simp_all add: next_feed_def start_def cached_world_def fiat_feed_def)
  ultimately show ?thesis
    using d cs h2 by simp
qed

section \<open>Resolving a rate\<close>

subsection \<open>Upper case\<close>

lemma upper_char_idem: "upper_char (upper_char c) = upper_char c"
proof (cases "97 \<le> (of_char c :: nat) \<and> (of_char c :: nat) \<le> 122")
  case True
  then have small: "(of_char c :: nat) - 32 < 256" by arith
  have up: "upper_char c = char_of ((of_char c :: nat) - 32)"
    using True by (simp add: upper_char_def Let_def)
  have "(of_char (upper_char c) :: nat) = of_char c - 32"
    using small by (simp add: up)
  with True have "\<not> (97 \<le> (of_char (upper_char c) :: nat) \<and> (of_char (upper_char c) :: nat) \<le> 122)"
    by arith
  then show ?thesis
    by (auto simp add: upper_char_def [of "upper_char c"] Let_def)
next
  case False
  then have "upper_char c = c"
    by (auto simp add: upper_char_def [of c] Let_def)
  then show ?thesis by simp
qed

lemma upper_idem: "upper (upper s) = upper s"
  by (simp add: upper_def upper_char_idem)

subsection \<open>Equal codes\<close>

text \<open>
  C6.  For every code \<open>x\<close>, \<open>get_exchange_rate x x\<close> returns the rate \<open>1\<close>
  with the current time and leaves the state as it was: the world is
  untouched and the log gets no entry, so the storage is not read and no
  refresh is run.
\<close>

theorem get_exchange_rate_same_currency:
  "get_exchange_rate E x x s = (Inr (1, now_local E (world s)), s)"
  by (simp add: get_exchange_rate_def)

text \<open>
  C9.  \<open>get_exchange_rate\<close> is the same function on \<open>f, t\<close> and on their
  upper-case forms, and two codes with the same upper-case form resolve to
  the rate \<open>1\<close> with the current time, the state untouched.
\<close>

theorem get_exchange_rate_case_insensitive:
  "get_exchange_rate E f t = get_exchange_rate E (upper f) (upper t)
   \<and> (upper f = upper t \<longrightarrow>
        get_exchange_rate E f t s = (Inr (1, now_local E (world s)), s))"
  by (simp add: get_exchange_rate_def upper_idem)

theorem get_exchange_rate_case_insensitive_witness:
  "upper ''usd'' = upper ''USD''
   \<and> get_exchange_rate provider_env ''usd'' ''USD'' (start (fresh_world []))
     = (Inr (1, 1000000), start (fresh_world []))"
proof -
  have same: "upper ''usd'' = upper ''USD''"
    by code_simp
  from get_exchange_rate_case_insensitive
    [of provider_env "''usd''" "''USD''" "start (fresh_world [])"] same
  have "get_exchange_rate provider_env ''usd'' ''USD'' (start (fresh_world [])) =
      (Inr (1, now_local provider_env (world (start (fresh_world [])))),
       start (fresh_world []))"
    by blast
  moreover have "now_local provider_env (world (start (fresh_world []))) = 1000000"
    by (simp add: provider_env_def start_def fresh_world_def)
  ultimately show ?thesis
    using same by simp
qed


subsection \<open>Counting the refreshes\<close>

lemma refreshes_load [simp]: "refreshes (snd (storage_load_rates E s)) = refreshes s"
  by (simp add: storage_load_rates_def refreshes_def split: prod.splits)

lemma refreshes_update [simp]: "refreshes (snd (update_rates E src s)) = Suc (refreshes s)"
  by (simp add: update_rates_def refreshes_def Let_def split: prod.splits sum.splits exn.splits)

lemma refreshes_lift [simp]: "refreshes (snd (lift r s)) = refreshes s"
  by (simp add: lift_def)

lemma refreshes_return [simp]: "refreshes (snd (return a s)) = refreshes s"
  by (simp add: return_def)

lemma refreshes_bind:
  assumes "\<And>s. refreshes (snd (m s)) \<le> refreshes s + a"
    and "\<And>x s. refreshes (snd (f x s)) \<le> refreshes s + b"
  shows "refreshes (snd (bind m f s)) \<le> refreshes s + (a + b)"
proof (cases "m s")
  case (Pair r s')
  have m: "refreshes s' \<le> refreshes s + a"
    using assms(1) [of s] Pair by simp
  show ?thesis
  proof (cases r)
    case (Inl e)
    with Pair m show ?thesis by (simp add: bind_def)
  next
    case (Inr x)
    have "refreshes (snd (f x s')) \<le> refreshes s' + b"
      by (rule assms(2))
    with Pair Inr m show ?thesis by (simp add: bind_def)
  qed
qed

lemma refreshes_reload:
  "refreshes (snd (bind (update_rates E None) (\<lambda>_. storage_load_rates E) s)) = Suc (refreshes s)"
proof (cases "update_rates E None s")
  case (Pair r s')
  have "refreshes s' = Suc (refreshes s)"
    using refreshes_update [of E None s] Pair by simp
  with Pair show ?thesis
    by (cases r) (simp_all add: bind_def)
qed

lemma refreshes_retry:
  "refreshes (snd (bind (update_rates E None)
      (\<lambda>_. bind (storage_load_rates E) (\<lambda>rs. lift (g rs))) s)) = Suc (refreshes s)"
proof (cases "update_rates E None s")
  case (Pair r s')
  have u: "refreshes s' = Suc (refreshes s)"
    using refreshes_update [of E None s] Pair by simp
  show ?thesis
  proof (cases r)
    case (Inl e)
    with Pair u show ?thesis by (simp add: bind_def)
  next
    case (Inr x)
    obtain r2 s2 where l: "storage_load_rates E s' = (r2, s2)"
      by (cases "storage_load_rates E s'")
    have "refreshes s2 = refreshes s'"
      using refreshes_load [of E s'] l by simp
    with Pair Inr u l show ?thesis
      by (cases r2) (simp_all add: bind_def lift_def)
  qed
qed

lemma stage_initial:
  "refreshes (snd ((if c then bind (update_rates E None) (\<lambda>_. storage_load_rates E)
                    else return rs) s)) \<le> refreshes s + 1"
  by (simp add: refreshes_reload)

lemma stage_lookup:
  "refreshes (snd ((case find_rate rs f t of
                Inl (RateNotFoundError _) \<Rightarrow>
                  bind (update_rates E None) (\<lambda>_.
                  bind (storage_load_rates E) (\<lambda>rs.
                  lift (find_rate rs f t)))
              | r \<Rightarrow> lift r) s)) \<le> refreshes s + 1"
  by (simp add: refreshes_retry split: sum.splits exn.splits)

lemma stage_ttl:
  "refreshes (snd ((\<lambda>(rate, updated_at) s.
          if now_utc E (world s) - updated_at > rates_ttl E (world s)
          then bind (update_rates E None) (\<lambda>_.
               bind (storage_load_rates E) (\<lambda>rs.
               lift (find_rate rs f t))) s
          else (Inr (rate, updated_at), s)) x s)) \<le> refreshes s + 1"
  by (cases x) (simp add: refreshes_retry)

text \<open>
  C1, as amended.  Each of the three trigger conditions forces at most one
  call of \<^verbatim>\<open>update_rates\<close>, so a call of \<open>get_exchange_rate\<close> adds at most
  three refreshes to the log.
\<close>

theorem get_exchange_rate_at_most_three_refreshes:
  "refreshes (snd (get_exchange_rate E from_currency to_currency s)) \<le> refreshes s + 3"
proof (cases "upper from_currency = upper to_currency")
  case True
  then show ?thesis by (simp add: get_exchange_rate_def)
next
  case False
  have "refreshes (snd (get_exchange_rate E from_currency to_currency s))
        \<le> refreshes s + (0 + (1 + (1 + 1)))"
    unfolding get_exchange_rate_def Let_def using False
    apply (simp only: if_False)
    apply (rule refreshes_bind)
     apply simp
    apply (rule refreshes_bind)
     apply (rule stage_initial)
    apply (rule refreshes_bind)
     apply (rule stage_lookup)
    apply (rule stage_ttl)
    done
  then show ?thesis by simp
qed

text \<open>
  C1 as stated fails: on a first run with no cache file, asking for a pair
  that the providers do not cover refreshes once for the empty snapshot and
  once more for the missing pair.
\<close>

theorem get_exchange_rate_two_refreshes_counterexample:
  "''btc'' \<noteq> ''usd'' \<and>
   \<not> refreshes (snd (get_exchange_rate provider_env ''btc'' ''usd''
        (start (fresh_world [fiat_feed, fiat_feed])))) \<le> 1"
  by code_simp

text \<open>
  The bound is reached when the pair appears with the second refresh and is
  already older than the TTL.
\<close>

lemma get_exchange_rate_three_refreshes:
  "refreshes (snd (get_exchange_rate provider_env ''btc'' ''usd''
        (start (fresh_world [fiat_feed, crypto_stale_feed])))) = 3"
  by code_simp


subsection \<open>A stamped snapshot\<close>

text \<open>The call up to the TTL check, for a stamped snapshot that holds the pair.\<close>

lemma get_exchange_rate_found:
  assumes "upper f \<noteq> upper t"
    and "load_rates E (world s) = (Inr rs, w1)"
    and "map_of rs ''last_refresh'' \<noteq> None"
    and "find_rate rs (upper f) (upper t) = Inr (r, u)"
  shows "get_exchange_rate E f t s =
     (let s1 = \<lparr>world = w1, trace = trace s @ [LoadRates]\<rparr>
      in if now_utc E w1 - u > rates_ttl E w1
         then bind (update_rates E None) (\<lambda>_.
              bind (storage_load_rates E) (\<lambda>rs.
              lift (find_rate rs (upper f) (upper t)))) s1
         else (Inr (r, u), s1))"
proof -
  obtain y where y: "map_of rs ''last_refresh'' = Some y"
    using assms(3) by auto
  then have "rs \<noteq> []" by auto
  with y assms(1,2,4) show ?thesis
    by (simp add: get_exchange_rate_def Let_def bind_def storage_load_rates_def
        return_def lift_def)
qed

text \<open>
  C4, as amended.  With a TTL of 3600 seconds and a loaded snapshot that
  carries \<^verbatim>\<open>last_refresh\<close> and in which the first lookup finds the pair, a record aged 3601 seconds makes the call run \<^verbatim>\<open>update_rates\<close>
  exactly once, whatever the refresh and the second lookup yield; a record
  aged 3599 seconds is returned as it is, after the one read of the storage.
\<close>

theorem get_exchange_rate_ttl_boundary:
  assumes "upper f \<noteq> upper t"
    and "load_rates E (world s) = (Inr rs, w1)"
    and "map_of rs ''last_refresh'' \<noteq> None"
    and "find_rate rs (upper f) (upper t) = Inr (r, u)"
    and "rates_ttl E w1 = 3600"
  shows "(now_utc E w1 - u = 3601 \<longrightarrow>
            refreshes (snd (get_exchange_rate E f t s)) = refreshes s + 1)
       \<and> (now_utc E w1 - u = 3599 \<longrightarrow>
            get_exchange_rate E f t s =
              (Inr (r, u), \<lparr>world = w1, trace = trace s @ [LoadRates]\<rparr>))"
proof -
  note found = get_exchange_rate_found [OF assms(1-4)]
  have "refreshes \<lparr>world = w1, trace = trace s @ [LoadRates]\<rparr> = refreshes s"
    by (simp add: refreshes_def)
  then show ?thesis
    using assms(5) by (simp add: found Let_def refreshes_retry)
qed

theorem get_exchange_rate_ttl_boundary_witness:
  "refreshes (snd (get_exchange_rate provider_env ''usd'' ''btc''
       (start (cached_world (btc_snapshot 996399) [])))) = 1
   \<and> fst (get_exchange_rate provider_env ''usd'' ''btc''
       (start (cached_world (btc_snapshot 996401) []))) = Inr (1 / 50000, 996401)
   \<and> trace (snd (get_exchange_rate provider_env ''usd'' ''btc''
       (start (cached_world (btc_snapshot 996401) [])))) = [LoadRates]"
proof -
  let ?w1 = "cached_world (btc_snapshot 996399) []"
  let ?w2 = "cached_world (btc_snapshot 996401) []"
  have u: "upper ''usd'' \<noteq> upper ''btc''" by code_simp
  have l1: "load_rates provider_env (world (start ?w1)) = (Inr (btc_snapshot 996399), ?w1)"
    by (simp add: provider_env_def start_def store_load_def cached_world_def)
  have l2: "load_rates provider_env (world (start ?w2)) = (Inr (btc_snapshot 996401), ?w2)"
    by (simp add: provider_env_def start_def store_load_def cached_world_def)
  have s: "map_of (btc_snapshot x) ''last_refresh'' \<noteq> None" for x
    by (simp add: btc_snapshot_def)
  have "upper ''usd'' = ''USD''" and "upper ''btc'' = ''BTC''"
    by code_simp+
  then have f: "find_rate (btc_snapshot x) (upper ''usd'') (upper ''btc'') = Inr (1 / 50000, x)" for x
    by (simp add: btc_snapshot_def find_rate_def pair_key_def)
  have t: "rates_ttl provider_env (cached_world c fs) = 3600" for c fs
    by (simp add: provider_env_def cached_world_def)
  have n: "now_utc provider_env (cached_world c fs) = 1000000" for c fs
    by (simp add: provider_env_def cached_world_def)
  from get_exchange_rate_ttl_boundary [OF u l1 s f t]
  have "refreshes (snd (get_exchange_rate provider_env ''usd'' ''btc'' (start ?w1))) = 1"
    by (simp add: n refreshes_def start_def)
  moreover
  from get_exchange_rate_ttl_boundary [OF u l2 s f t]
  have "get_exchange_rate provider_env ''usd'' ''btc'' (start ?w2) =
      (Inr (1 / 50000, 996401), \<lparr>world = ?w2, trace = trace (start ?w2) @ [LoadRates]\<rparr>)"
    by (simp add: n)
  ultimately show ?thesis by (simp add: start_def)
qed


text \<open>
  C4 as stated fails on a snapshot without \<^verbatim>\<open>last_refresh\<close>.  At the
  sample clock the record of \<open>unstamped_snapshot 996401\<close> is 3599 seconds
  old and that of \<open>unstamped_snapshot 996399\<close> is 3601 seconds old.  The
  fresh one is not answered from the cache: the missing stamp forces a
  refresh, and with every provider down the call ends in the error.  The
  stale one sees two refreshes, one for the stamp and one for the TTL.
\<close>

theorem get_exchange_rate_ttl_unstamped_counterexample:
  "find_rate (unstamped_snapshot 996401) ''BTC'' ''USD'' = Inr (50000, 996401)
   \<and> fst (get_exchange_rate provider_env ''btc'' ''usd''
         (start (cached_world (unstamped_snapshot 996401) [])))
       = Inl (ApiRequestError ''no rate from any client'')
   \<and> \<not> refreshes (snd (get_exchange_rate provider_env ''btc'' ''usd''
         (start (cached_world (unstamped_snapshot 996401) [])))) = 0
   \<and> find_rate (unstamped_snapshot 996399) ''BTC'' ''USD'' = Inr (50000, 996399)
   \<and> \<not> refreshes (snd (get_exchange_rate provider_env ''btc'' ''usd''
         (start (cached_world (unstamped_snapshot 996399) [fiat_feed])))) = 1"
  by code_simp






end
